theory Spec2Isabelle
  imports Main
begin

section \<open>The WebSocket transport of the MCP client\<close>

text \<open>
  A shallow embedding of the class \<open>WebSocketMCPTransport\<close> of
  \<^verbatim>\<open>src/examples/hono/src/mcp-ws-example.ts\<close>. The class is asynchronous and talks to
  three things it does not own: the \<open>ws\<close> socket, the JavaScript runtime (\<open>URL\<close>,
  \<open>JSON\<close>, \<open>Buffer\<close>, the message schema) and the consumer's callbacks. The model makes
  each of them explicit:
  \<^item> what a socket does after the class has called it is an argument of the operation
    (one signal per connect attempt, one delivery per send attempt);
  \<^item> runtime functions that are not part of the file are fields of a \<open>runtime\<close> record;
  \<^item> a consumer callback is a function to a completion (it returns or it throws);
  \<^item> everything the class does to the outside is appended to a list of events, in the
    order the code does it; a timer of \<open>n\<close> milliseconds is the event \<open>Delay n\<close>.
  Each method is modelled from its call to the settling of the promise it returns, with no
  other method or handler of the same transport running at its suspension points.
\<close>

subsection \<open>Values, promises and events\<close>

text \<open>
  A thrown JavaScript value: an \<open>Error\<close> object with its message and its \<open>cause\<close>
  property, or any other value, kept as what \<open>String(v)\<close> gives.
\<close>

datatype js_value = Error string "js_value option" | NonError string

text \<open>How an awaited promise ends; \<open>Pending\<close> is a promise that never settles.\<close>

datatype 'a promise = Resolved 'a | Rejected js_value | Pending

text \<open>How a synchronous call of consumer code ends.\<close>

datatype completion = Returns | Throws js_value

datatype ready_state = CONNECTING | OPEN | CLOSING | CLOSED

type_synonym ws = nat

type_synonym header_map = "(string \<times> string) list"

datatype 'm event =
    NewWebSocket string "header_map option" bool
  | Delay nat
  | SocketSend ws string
  | SocketClose ws
  | Abort
  | OnError js_value
  | OnMessage 'm
  | OnClose
  | Uncaught js_value

text \<open>
  The fields of the class. \<open>aborted\<close> is the state of \<open>abortController.signal\<close>;
  \<open>created\<close> is not a field of the class: it counts the socket objects constructed so
  far and so names the next one.
\<close>

record 'm transport =
  socket :: "ws option"
  url :: string
  connected :: bool
  aborted :: bool
  headers :: "header_map option"
  onclose :: "completion option"
  onerror :: "(js_value \<Rightarrow> completion) option"
  onmessage :: "('m \<Rightarrow> completion) option"
  created :: nat

text \<open>
  The runtime functions the file calls and does not define: \<open>new URL(s).href\<close>,
  \<open>buffer.toString('utf-8')\<close>, \<open>JSON.stringify\<close>, \<open>JSON.parse\<close> and
  \<open>JSONRPCMessageSchema.parse\<close>; \<open>Inl\<close> is the value thrown.
\<close>

record ('j, 'm) runtime =
  URL_href :: "string \<Rightarrow> js_value + string"
  toString_utf8 :: "char list \<Rightarrow> string"
  JSON_stringify :: "'m \<Rightarrow> js_value + string"
  JSON_parse :: "string \<Rightarrow> js_value + 'j"
  Schema_parse :: "'j \<Rightarrow> js_value + 'm"

definition MAX_RETRIES :: nat where
  "MAX_RETRIES = 3"

definition RETRY_DELAY_MS :: nat where
  "RETRY_DELAY_MS = 1000"

subsection \<open>The constructor\<close>

text \<open>
  \<open>url.replace(/^http/i, 'ws')\<close>: the pattern matches the four letters at the start of
  the string, each in either case, and the match is replaced by \<open>ws\<close>.
\<close>

fun starts_with_http :: "string \<Rightarrow> bool" where
  "starts_with_http (a # b # c # d # rest) =
     ((a = CHR ''h'' \<or> a = CHR ''H'') \<and> (b = CHR ''t'' \<or> b = CHR ''T'') \<and>
      (c = CHR ''t'' \<or> c = CHR ''T'') \<and> (d = CHR ''p'' \<or> d = CHR ''P''))"
| "starts_with_http _ = False"

definition replace_http :: "string \<Rightarrow> string" where
  "replace_http s = (if starts_with_http s then ''ws'' @ drop 4 s else s)"

definition constructor :: "('j, 'm) runtime \<Rightarrow> string \<Rightarrow> header_map option \<Rightarrow> js_value + 'm transport" where
  "constructor rt u hs =
     (case URL_href rt (replace_http u) of
        Inl e \<Rightarrow> Inl e
      | Inr href \<Rightarrow>
          Inr \<lparr>socket = None, url = href, connected = False, aborted = False, headers = hs,
               onclose = None, onerror = None, onmessage = None, created = 0\<rparr>)"

subsection \<open>Calling the consumer's callbacks\<close>

text \<open>\<open>this.onerror?.(error)\<close> and its two siblings: nothing happens when the slot is empty.\<close>

definition call_onerror :: "'m transport \<Rightarrow> js_value \<Rightarrow> completion \<times> 'm event list" where
  "call_onerror t e = (case onerror t of None \<Rightarrow> (Returns, []) | Some f \<Rightarrow> (f e, [OnError e]))"

definition call_onmessage :: "'m transport \<Rightarrow> 'm \<Rightarrow> completion \<times> 'm event list" where
  "call_onmessage t m = (case onmessage t of None \<Rightarrow> (Returns, []) | Some f \<Rightarrow> (f m, [OnMessage m]))"

definition call_onclose :: "'m transport \<Rightarrow> completion \<times> 'm event list" where
  "call_onclose t = (case onclose t of None \<Rightarrow> (Returns, []) | Some c \<Rightarrow> (c, [OnClose]))"

subsection \<open>Connecting\<close>

text \<open>
  What the socket made by one connect attempt does first: the constructor throws, the
  socket emits \<open>error\<close>, it emits \<open>open\<close>, or it stays silent.
\<close>

datatype socket_signal = ConstructorThrows js_value | ErrorEvent js_value | OpenEvent | NoSignal

text \<open>The handler \<open>socket.onerror\<close>: the error it builds, and what reporting it did.\<close>

definition socket_onerror :: "'m transport \<Rightarrow> js_value \<Rightarrow> js_value \<times> completion \<times> 'm event list" where
  "socket_onerror t ev =
     (let error = Error ''MCP WebSocket Transport Error: Connection error'' (Some ev)
      in (error, call_onerror t error))"

text \<open>
  \<open>_connect()\<close>. When the consumer's error callback throws inside \<open>socket.onerror\<close>,
  \<open>reject\<close> is never reached and the promise stays pending.
\<close>

definition connect :: "'m transport \<Rightarrow> socket_signal \<Rightarrow> unit promise \<times> 'm transport \<times> 'm event list" where
  "connect t sig =
     (let new = NewWebSocket (url t) (headers t) (aborted t);
          t' = t\<lparr>socket := Some (created t), created := Suc (created t)\<rparr>
      in case sig of
           ConstructorThrows e \<Rightarrow> (Rejected e, t, [new])
         | ErrorEvent ev \<Rightarrow>
             (case socket_onerror t' ev of
                (error, Returns, tr) \<Rightarrow> (Rejected error, t', new # tr)
              | (error, Throws x, tr) \<Rightarrow> (Pending, t', new # tr @ [Uncaught x]))
         | OpenEvent \<Rightarrow> (Resolved (), t', [new])
         | NoSignal \<Rightarrow> (Pending, t', [new]))"

text \<open>
  The loop of \<open>start()\<close>, from the value of \<open>attempts\<close>. \<open>sigs i\<close> is the signal of
  the socket made by attempt number \<open>i\<close>, counting from 0; the loop variable \<open>attempts\<close>
  is the number of the attempt about to be made. Leaving the loop by its condition would
  resolve the promise.
\<close>

function start_loop :: "'m transport \<Rightarrow> nat \<Rightarrow> (nat \<Rightarrow> socket_signal) \<Rightarrow> unit promise \<times> 'm transport \<times> 'm event list" where
  "start_loop t attempts sigs =
     (if attempts < MAX_RETRIES then
        (case connect t (sigs attempts) of
           (Resolved _, t', tr) \<Rightarrow> (Resolved (), t'\<lparr>connected := True\<rparr>, tr)
         | (Pending, t', tr) \<Rightarrow> (Pending, t', tr)
         | (Rejected error, t', tr) \<Rightarrow>
             (if attempts + 1 = MAX_RETRIES then (Rejected error, t', tr)
              else (case start_loop t' (attempts + 1) sigs of
                      (r, t'', tr') \<Rightarrow> (r, t'', tr @ Delay RETRY_DELAY_MS # tr'))))
      else (Resolved (), t, []))"
  by pat_completeness auto
termination
  by (relation "measure (\<lambda>(t, attempts, sigs). MAX_RETRIES - attempts)") (auto simp: MAX_RETRIES_def)

definition start :: "'m transport \<Rightarrow> (nat \<Rightarrow> socket_signal) \<Rightarrow> unit promise \<times> 'm transport \<times> 'm event list" where
  "start t sigs = (if connected t then (Resolved (), t, []) else start_loop t 0 sigs)"

subsection \<open>The other socket handlers\<close>

text \<open>\<open>socket.onclose\<close>: the flag is cleared and the consumer told; \<open>this.socket\<close> is not touched.\<close>

definition socket_onclose :: "'m transport \<Rightarrow> completion \<times> 'm transport \<times> 'm event list" where
  "socket_onclose t =
     (let t' = t\<lparr>connected := False\<rparr>
      in case call_onclose t' of (c, tr) \<Rightarrow> (c, t', tr))"

text \<open>
  The payload of a message event: \<open>string | Buffer | ArrayBuffer | Buffer[]\<close>. The bytes
  of a buffer are \<open>char\<close>s, which are 8 bits wide.
\<close>

type_synonym buffer = "char list"

datatype ws_data = StringData string | BufferData buffer | ArrayBufferData buffer | BufferArrayData "buffer list"

text \<open>The \<open>try\<close> block of \<open>socket.onmessage\<close> up to the parsed message.\<close>

definition dataString :: "('j, 'm) runtime \<Rightarrow> ws_data \<Rightarrow> js_value + string" where
  "dataString rt d =
     (case d of
        StringData s \<Rightarrow> Inr s
      | BufferData b \<Rightarrow> Inr (toString_utf8 rt b)
      | ArrayBufferData b \<Rightarrow> Inr (toString_utf8 rt b)
      | BufferArrayData bs \<Rightarrow> Inl (Error ''MCP WebSocket Transport Error: Unsupported data type'' None))"

definition decode :: "('j, 'm) runtime \<Rightarrow> ws_data \<Rightarrow> js_value + 'm" where
  "decode rt d =
     (case dataString rt d of
        Inl e \<Rightarrow> Inl e
      | Inr s \<Rightarrow> (case JSON_parse rt s of Inl e \<Rightarrow> Inl e | Inr j \<Rightarrow> Schema_parse rt j))"

text \<open>
  \<open>socket.onmessage\<close>. The consumer's message callback is called inside the \<open>try\<close>
  block, so what it throws reaches the same \<open>catch\<close> as a decoding error; the error
  callback is called inside the \<open>catch\<close> block, so what it throws leaves the handler.
\<close>

definition socket_onmessage :: "('j, 'm) runtime \<Rightarrow> 'm transport \<Rightarrow> ws_data \<Rightarrow> completion \<times> 'm transport \<times> 'm event list" where
  "socket_onmessage rt t d =
     (case (case decode rt d of Inl e \<Rightarrow> (Throws e, []) | Inr message \<Rightarrow> call_onmessage t message) of
        (Returns, tr) \<Rightarrow> (Returns, t, tr)
      | (Throws parseError, tr) \<Rightarrow>
          (let error = Error ''MCP WebSocket Transport Error: Failed to parse message'' (Some parseError)
           in case call_onerror t error of (c, tr') \<Rightarrow> (c, t, tr @ tr')))"

text \<open>
  The socket emits its message events one after the other, and each event is a call of
  its own of the handler, in arrival order. An exception that leaves the handler ends that
  call only: it is recorded, and nothing in the class keeps the next event from its call.
\<close>

definition escaped :: "completion \<Rightarrow> 'm event list" where
  "escaped c = (case c of Returns \<Rightarrow> [] | Throws x \<Rightarrow> [Uncaught x])"

fun receive :: "('j, 'm) runtime \<Rightarrow> 'm transport \<Rightarrow> ws_data list \<Rightarrow> 'm transport \<times> 'm event list" where
  "receive rt t [] = (t, [])"
| "receive rt t (d # ds) =
     (case socket_onmessage rt t d of
        (c, t', tr) \<Rightarrow>
          (case receive rt t' ds of (t'', tr') \<Rightarrow> (t'', tr @ escaped c @ tr')))"

subsection \<open>Closing\<close>

text \<open>
  \<open>close()\<close>. \<open>rs\<close> is the \<open>readyState\<close> of the stored socket when the method reads it
  and \<open>closing\<close> is how \<open>socket.close()\<close> ends if it is called. The method has no
  \<open>try\<close>: an exception of \<open>socket.close()\<close> or of the consumer's callback rejects the
  promise of the \<open>async\<close> method at the statement that threw.
\<close>

definition close :: "'m transport \<Rightarrow> ready_state \<Rightarrow> completion \<Rightarrow> unit promise \<times> 'm transport \<times> 'm event list" where
  "close t rs closing =
     (let t1 = t\<lparr>connected := False, aborted := True\<rparr>;
          finish = (\<lambda>t2 tr. case call_onclose t2 of
                       (Returns, tr') \<Rightarrow> (Resolved (), t2, tr @ tr')
                     | (Throws x, tr') \<Rightarrow> (Rejected x, t2, tr @ tr'))
      in case socket t1 of
           None \<Rightarrow> finish t1 [Abort]
         | Some s \<Rightarrow>
             (if rs = OPEN then
                (case closing of
                   Throws x \<Rightarrow> (Rejected x, t1, [Abort, SocketClose s])
                 | Returns \<Rightarrow> finish (t1\<lparr>socket := None\<rparr>) [Abort, SocketClose s])
              else finish (t1\<lparr>socket := None\<rparr>) [Abort]))"

subsection \<open>Sending\<close>

text \<open>
  What the socket does with one \<open>socket.send(data, callback)\<close>: the call throws, the
  callback is called with an error or with none, or the callback is never called.
\<close>

datatype delivery = SendThrows js_value | Callback "js_value option" | NoCallback

definition sendError :: "js_value \<Rightarrow> js_value" where
  "sendError cause = Error ''MCP WebSocket Transport Error: Failed to send message'' (Some cause)"

text \<open>
  The \<open>try\<close> block of one iteration of the loop of \<open>send()\<close>. The pair is the
  \<open>readyState\<close> the iteration reads and what the socket does with the write. Reading
  \<open>readyState\<close> of an absent socket is a \<open>TypeError\<close>, caught like the others.
\<close>

definition send_attempt :: "('j, 'm) runtime \<Rightarrow> 'm transport \<Rightarrow> 'm \<Rightarrow> ready_state \<times> delivery \<Rightarrow> unit promise \<times> 'm event list" where
  "send_attempt rt t message env =
     (case socket t of
        None \<Rightarrow> (Rejected (Error ''TypeError: Cannot read properties of undefined (reading readyState)'' None), [])
      | Some s \<Rightarrow>
          (if fst env \<noteq> OPEN then
             (Rejected (Error ''MCP WebSocket Transport Error: Socket not in OPEN state'' None), [])
           else
             (case JSON_stringify rt message of
                Inl e \<Rightarrow> (Rejected (sendError e), [])
              | Inr data \<Rightarrow>
                  (case snd env of
                     SendThrows e \<Rightarrow> (Rejected (sendError e), [SocketSend s data])
                   | Callback (Some e) \<Rightarrow> (Rejected (sendError e), [SocketSend s data])
                   | Callback None \<Rightarrow> (Resolved (), [SocketSend s data])
                   | NoCallback \<Rightarrow> (Pending, [SocketSend s data])))))"

text \<open>\<open>error instanceof Error ? error : new Error(String(error))\<close>\<close>

definition as_Error :: "js_value \<Rightarrow> js_value" where
  "as_Error v = (case v of Error msg c \<Rightarrow> v | NonError s \<Rightarrow> Error s None)"

text \<open>The loop of \<open>send()\<close>; \<open>envs i\<close> is what attempt number \<open>i\<close> meets.\<close>

function send_loop :: "('j, 'm) runtime \<Rightarrow> 'm transport \<Rightarrow> 'm \<Rightarrow> nat \<Rightarrow> (nat \<Rightarrow> ready_state \<times> delivery) \<Rightarrow> unit promise \<times> 'm transport \<times> 'm event list" where
  "send_loop rt t message attempts envs =
     (if attempts < MAX_RETRIES then
        (case send_attempt rt t message (envs attempts) of
           (Resolved _, tr) \<Rightarrow> (Resolved (), t, tr)
         | (Pending, tr) \<Rightarrow> (Pending, t, tr)
         | (Rejected error, tr) \<Rightarrow>
             (if attempts + 1 = MAX_RETRIES then
                (case call_onerror t (as_Error error) of
                   (Returns, tr') \<Rightarrow> (Rejected error, t, tr @ tr')
                 | (Throws x, tr') \<Rightarrow> (Rejected x, t, tr @ tr'))
              else (case send_loop rt t message (attempts + 1) envs of
                      (r, t', tr') \<Rightarrow> (r, t', tr @ Delay RETRY_DELAY_MS # tr'))))
      else (Resolved (), t, []))"
  by pat_completeness auto
termination
  by (relation "measure (\<lambda>(rt, t, message, attempts, envs). MAX_RETRIES - attempts)") (auto simp: MAX_RETRIES_def)

definition send :: "('j, 'm) runtime \<Rightarrow> 'm transport \<Rightarrow> 'm \<Rightarrow> (nat \<Rightarrow> ready_state \<times> delivery) \<Rightarrow> unit promise \<times> 'm transport \<times> 'm event list" where
  "send rt t message envs =
     (if socket t = None \<or> \<not> connected t then
        (Rejected (Error ''MCP WebSocket Transport Error: Not connected'' None), t, [])
      else send_loop rt t message 0 envs)"

subsection \<open>Reading a run\<close>

text \<open>
  What the statements below read off the events of a run: the connect attempts (each is
  one \<open>new WebSocket\<close>), the attempts together with the timers between them, and the
  errors handed to the consumer's error callback.
\<close>

fun is_connect :: "'m event \<Rightarrow> bool" where
  "is_connect (NewWebSocket u h a) = True"
| "is_connect _ = False"



fun reported :: "'m event \<Rightarrow> js_value option" where
  "reported (OnError e) = Some e"
| "reported _ = None"

definition error_reports :: "'m event list \<Rightarrow> js_value list" where
  "error_reports tr = List.map_filter reported tr"

fun rejected :: "'a promise \<Rightarrow> bool" where
  "rejected (Rejected e) = True"
| "rejected _ = False"


definition attempts_made :: "'m event list \<Rightarrow> nat" where
  "attempts_made tr = length (filter is_connect tr)"

text \<open>What the handler \<open>socket.onerror\<close> hands to the error callback for one signal.\<close>

definition signal_reports :: "'m transport \<Rightarrow> socket_signal \<Rightarrow> js_value list" where
  "signal_reports t sig =
     (case sig of
        ErrorEvent ev \<Rightarrow>
          (case onerror t of None \<Rightarrow> []
           | Some f \<Rightarrow> [Error ''MCP WebSocket Transport Error: Connection error'' (Some ev)])
      | _ \<Rightarrow> [])"

text \<open>The calls of the close callback and the messages handed to the message callback.\<close>

fun is_onclose :: "'m event \<Rightarrow> bool" where
  "is_onclose OnClose = True"
| "is_onclose _ = False"

definition close_calls :: "'m event list \<Rightarrow> nat" where
  "close_calls tr = length (filter is_onclose tr)"

fun delivered :: "'m event \<Rightarrow> 'm option" where
  "delivered (OnMessage m) = Some m"
| "delivered _ = None"

definition messages_delivered :: "'m event list \<Rightarrow> 'm list" where
  "messages_delivered tr = List.map_filter delivered tr"

text \<open>The message a payload decodes to, if it does.\<close>

definition decodes :: "('j, 'm) runtime \<Rightarrow> ws_data \<Rightarrow> 'm option" where
  "decodes rt d = (case decode rt d of Inl e \<Rightarrow> None | Inr m \<Rightarrow> Some m)"

text \<open>The error built in the \<open>catch\<close> block of \<open>socket.onmessage\<close>.\<close>

definition parse_failure :: "js_value \<Rightarrow> js_value" where
  "parse_failure cause = Error ''MCP WebSocket Transport Error: Failed to parse message'' (Some cause)"

subsection \<open>Inputs for the examples\<close>

definition example_transport :: "string transport" where
  "example_transport =
     \<lparr>socket = None, url = ''ws://localhost:8080/'', connected = False, aborted = False,
      headers = Some [(''Authorization'', ''Bearer your-token'')],
      onclose = Some Returns, onerror = Some (\<lambda>e. Returns), onmessage = Some (\<lambda>m. Returns),
      created = 0\<rparr>"

definition refused :: js_value where
  "refused = Error ''connect ECONNREFUSED'' None"


definition three_refusals :: "nat \<Rightarrow> socket_signal" where
  "three_refusals i = (if i < 3 then ErrorEvent refused else OpenEvent)"

definition example_runtime :: "(string, string) runtime" where
  "example_runtime =
     \<lparr>URL_href = (\<lambda>s. Inr (s @ ''/'')),
      toString_utf8 = (\<lambda>b. b),
      JSON_stringify = (\<lambda>m. Inr m),
      JSON_parse = (\<lambda>s. if s = ''not json'' then Inl (Error ''SyntaxError: Unexpected token'' None) else Inr s),
      Schema_parse = (\<lambda>j. if j = ''{}'' then Inl (Error ''ZodError'' None) else Inr j)\<rparr>"

definition connected_transport :: "string transport" where
  "connected_transport = example_transport\<lparr>socket := Some 0, connected := True, created := 1\<rparr>"

definition broken_pipe :: js_value where
  "broken_pipe = Error ''write EPIPE'' None"

definition two_failed_writes :: "nat \<Rightarrow> ready_state \<times> delivery" where
  "two_failed_writes i = (if i < 2 then (OPEN, Callback (Some broken_pipe)) else (OPEN, Callback None))"

definition failed_writes :: "nat \<Rightarrow> ready_state \<times> delivery" where
  "failed_writes i = (OPEN, Callback (Some broken_pipe))"

definition ping :: string where
  "ping = ''{method: ping}''"

definition teardown_failure :: js_value where
  "teardown_failure = Error ''socket.close() failed'' None"

definition throwing_onclose :: "string transport" where
  "throwing_onclose = example_transport\<lparr>onclose := Some (Throws teardown_failure)\<rparr>"



text \<open>An error callback that throws: the cause of the error it is given, or the error itself.\<close>

definition rethrow_cause :: "js_value \<Rightarrow> completion" where
  "rethrow_cause e = (case e of Error msg (Some c) \<Rightarrow> Throws c | _ \<Rightarrow> Throws e)"

definition throwing_onerror :: "string transport" where
  "throwing_onerror = connected_transport\<lparr>onerror := Some rethrow_cause\<rparr>"



section \<open>Properties\<close>

subsection \<open>What one connect attempt does\<close>

lemma connect_keeps:
  "onerror (fst (snd (connect t sig))) = onerror t"
  "url (fst (snd (connect t sig))) = url t"
  "headers (fst (snd (connect t sig))) = headers t"
  "aborted (fst (snd (connect t sig))) = aborted t"
  "connected (fst (snd (connect t sig))) = connected t"
  "onclose (fst (snd (connect t sig))) = onclose t"
  "onmessage (fst (snd (connect t sig))) = onmessage t"
  by (auto simp: connect_def socket_onerror_def call_onerror_def Let_def split: socket_signal.splits completion.splits option.splits)

lemma connect_rejection:
  "fst (connect t sig) = Rejected e \<longleftrightarrow>
     sig = ConstructorThrows e \<or>
     (\<exists>ev. sig = ErrorEvent ev \<and>
           e = Error ''MCP WebSocket Transport Error: Connection error'' (Some ev) \<and>
           fst (call_onerror t e) = Returns)"
  by (cases sig)
    (auto simp: connect_def socket_onerror_def call_onerror_def Let_def split: option.splits completion.splits)



lemma connect_attempts:
  "attempts_made (snd (snd (connect t sig))) = 1"
  by (auto simp: attempts_made_def connect_def socket_onerror_def call_onerror_def Let_def split: socket_signal.splits completion.splits option.splits)

lemma connect_reports:
  "error_reports (snd (snd (connect t sig))) = signal_reports t sig"
  by (auto simp: error_reports_def signal_reports_def map_filter_def connect_def socket_onerror_def call_onerror_def Let_def split: socket_signal.splits completion.splits option.splits)


lemma signal_reports_cong:
  "onerror t' = onerror t \<Longrightarrow> signal_reports t' sig = signal_reports t sig"
  by (simp add: signal_reports_def split: socket_signal.splits)

declare start_loop.simps [simp del]



lemma start_loop_reports:
  "error_reports (snd (snd (start_loop t a sigs))) =
     concat (map (\<lambda>i. signal_reports t (sigs i)) [a ..< a + attempts_made (snd (snd (start_loop t a sigs)))])"
proof (induction t a sigs rule: start_loop.induct)
  case (1 t a sigs)
  show ?case
  proof (cases "a < MAX_RETRIES")
    case False
    then have "start_loop t a sigs = (Resolved (), t, [])"
      by (subst start_loop.simps) simp
    then show ?thesis by (simp add: error_reports_def attempts_made_def map_filter_def)
  next
    case lt: True
    obtain p t' tr where c: "connect t (sigs a) = (p, t', tr)"
      by (cases "connect t (sigs a)") auto
    have keep: "onerror t' = onerror t"
      using connect_keeps(1)[of t "sigs a"] c by simp
    have one: "attempts_made tr = 1" "error_reports tr = signal_reports t (sigs a)"
      using connect_attempts[of t "sigs a"] connect_reports[of t "sigs a"] c by simp_all
    show ?thesis
    proof (cases "(\<exists>e. p = Rejected e) \<and> a + 1 \<noteq> MAX_RETRIES")
      case False
      then have "snd (snd (start_loop t a sigs)) = tr"
        using lt c by (subst start_loop.simps) (auto split: promise.splits)
      then show ?thesis using one by simp
    next
      case True
      then obtain e where p: "p = Rejected e" and ne: "a + 1 \<noteq> MAX_RETRIES" by auto
      obtain r t'' tr' where s: "start_loop t' (a + 1) sigs = (r, t'', tr')"
        by (cases "start_loop t' (a + 1) sigs") auto
      have eq: "start_loop t a sigs = (r, t'', tr @ Delay RETRY_DELAY_MS # tr')"
        using lt ne c p s by (subst start_loop.simps) simp
      have ih: "error_reports tr' = concat (map (\<lambda>i. signal_reports t (sigs i)) [a + 1 ..< a + 1 + attempts_made tr'])"
        using "1.IH"[OF lt c[unfolded p, symmetric] refl refl ne] s keep
        by (simp add: signal_reports_cong[of t' t])
      have d: "error_reports (tr @ Delay RETRY_DELAY_MS # tr') = error_reports tr @ error_reports tr'"
        "attempts_made (tr @ Delay RETRY_DELAY_MS # tr') = attempts_made tr + attempts_made tr'"
        by (simp_all add: error_reports_def attempts_made_def map_filter_def)
      have up: "[a ..< a + (1 + attempts_made tr')] = a # [a + 1 ..< a + 1 + attempts_made tr']"
        by (simp add: upt_conv_Cons)
      show ?thesis
        unfolding eq by (simp only: snd_conv d one ih up list.map concat.simps)
    qed
  qed
qed

lemma start_when_connected:
  "connected t \<Longrightarrow> start t sigs = (Resolved (), t, [])"
  by (simp add: start_def)



subsection \<open>Retrying the connection\<close>






subsection \<open>Connection errors and the error callback\<close>

text \<open>
  C5, as the code has it. The error callback is called by the handler \<open>socket.onerror\<close>,
  not by the loop of \<open>start()\<close>: in every run of \<open>start()\<close> it is called once for each
  attempt whose socket emitted \<open>error\<close>, final or not, in the order of the attempts and
  with the error \<open>_connect()\<close> rejects with; an attempt whose constructor threw reports
  nothing, and \<open>start()\<close> adds no call of its own.
\<close>

theorem start_reports_every_socket_error:
  "error_reports (snd (snd (start t sigs))) =
     concat (map (\<lambda>i. signal_reports t (sigs i)) [0 ..< attempts_made (snd (snd (start t sigs)))])"
proof (cases "connected t")
  case True
  then show ?thesis
    by (simp add: start_def error_reports_def attempts_made_def map_filter_def)
next
  case False
  then show ?thesis
    using start_loop_reports[of t 0 sigs] by (simp add: start_def)
qed

text \<open>
  The claim as stated allows one call, for the final attempt only. With an error callback
  registered and three refused connections the callback is called three times.
\<close>

theorem start_reports_three_times_counterexample:
  "error_reports (snd (snd (start example_transport three_refusals))) =
     [Error ''MCP WebSocket Transport Error: Connection error'' (Some refused),
      Error ''MCP WebSocket Transport Error: Connection error'' (Some refused),
      Error ''MCP WebSocket Transport Error: Connection error'' (Some refused)]"
  by (simp add: start_def start_loop.simps three_refusals_def connect_def socket_onerror_def
        call_onerror_def example_transport_def MAX_RETRIES_def error_reports_def map_filter_def Let_def)

subsection \<open>Sending\<close>

declare send_loop.simps [simp del]

lemma send_attempt_rejects_Error:
  "fst (send_attempt rt t message env) = Rejected e \<Longrightarrow> as_Error e = e"
  by (auto simp: send_attempt_def sendError_def as_Error_def split: option.splits if_splits sum.splits delivery.splits)

lemma send_attempt_no_reports:
  "error_reports (snd (send_attempt rt t message env)) = []"
  by (auto simp: send_attempt_def error_reports_def map_filter_def split: option.splits if_splits sum.splits delivery.splits)

lemma rejectedE:
  assumes "rejected (fst p)"
  obtains e tr where "p = (Rejected e, tr)"
  using assms by (cases p; cases "fst p") auto

text \<open>
  C4. \<open>send()\<close> on a transport that has no socket or is not connected (a transport never
  started has neither) rejects with the \<open>Not connected\<close> error before the loop is
  entered: the run has no event, so no socket write and no retry timer, and the transport
  is unchanged.
\<close>

theorem send_not_connected:
  assumes "socket t = None \<or> \<not> connected t"
  shows "send rt t message envs =
           (Rejected (Error ''MCP WebSocket Transport Error: Not connected'' None), t, [])"
  using assms by (auto simp: send_def)

theorem send_not_connected_witness:
  "send example_runtime example_transport ping failed_writes =
     (Rejected (Error ''MCP WebSocket Transport Error: Not connected'' None), example_transport, [])"
proof -
  have "socket example_transport = None \<or> \<not> connected example_transport"
    by (simp add: example_transport_def)
  then show ?thesis by (rule send_not_connected)
qed

text \<open>
  C3, as the code has it. \<open>send()\<close> on a connected transport. An attempt fails when its \<open>try\<close> block
  throws: the socket is not open, or serialising or writing the message fails. If attempt
  \<open>n + 1 \<le> 3\<close> is the first that succeeds, the promise resolves, and the events of the run
  are those of the attempts up to that one with a timer of 1000 ms after each failed one:
  nothing follows the successful write (and no attempt calls the error callback, see
  \<open>send_attempt_no_reports\<close>). If all three attempts fail, the error callback, when one is
  registered, is called exactly once, with the error \<open>e\<close> of the third attempt, and the
  promise is rejected with \<open>e\<close>, unless the callback itself throws, which then replaces
  \<open>e\<close>.
\<close>

theorem send_retries:
  assumes "socket t \<noteq> None" and "connected t"
  shows "(n < 3 \<and> (\<forall>i<n. rejected (fst (send_attempt rt t message (envs i)))) \<and>
          fst (send_attempt rt t message (envs n)) = Resolved ()
          \<longrightarrow> send rt t message envs =
                (Resolved (), t,
                 concat (map (\<lambda>i. snd (send_attempt rt t message (envs i)) @ [Delay 1000]) [0..<n]) @
                 snd (send_attempt rt t message (envs n)))) \<and>
         ((\<forall>i<3. rejected (fst (send_attempt rt t message (envs i)))) \<and>
          fst (send_attempt rt t message (envs 2)) = Rejected e
          \<longrightarrow> error_reports (snd (snd (send rt t message envs))) =
                  (case onerror t of None \<Rightarrow> [] | Some f \<Rightarrow> [e]) \<and>
              fst (send rt t message envs) =
                  (case fst (call_onerror t e) of Returns \<Rightarrow> Rejected e | Throws x \<Rightarrow> Rejected x))"
proof (intro conjI impI)
  have s: "send rt t message envs = send_loop rt t message 0 envs"
    using assms by (auto simp: send_def)
  {
    assume a: "n < 3 \<and> (\<forall>i<n. rejected (fst (send_attempt rt t message (envs i)))) \<and>
          fst (send_attempt rt t message (envs n)) = Resolved ()"
    then obtain trn where ok: "send_attempt rt t message (envs n) = (Resolved (), trn)"
      by (cases "send_attempt rt t message (envs n)") auto
    from a consider "n = 0" | "n = 1" | "n = 2" by linarith
    then show "send rt t message envs =
                (Resolved (), t,
                 concat (map (\<lambda>i. snd (send_attempt rt t message (envs i)) @ [Delay 1000]) [0..<n]) @
                 snd (send_attempt rt t message (envs n)))"
    proof cases
      case 1
      with ok show ?thesis
        unfolding s by (subst send_loop.simps) (simp add: MAX_RETRIES_def)
    next
      case 2
      with a have "rejected (fst (send_attempt rt t message (envs 0)))" by simp
      then obtain e0 tr0 where r0: "send_attempt rt t message (envs 0) = (Rejected e0, tr0)"
        by (rule rejectedE)
      from 2 ok r0 show ?thesis
        unfolding s by (simp add: send_loop.simps[of rt t message 0] send_loop.simps[of rt t message "Suc 0"]
            MAX_RETRIES_def RETRY_DELAY_MS_def)
    next
      case 3
      with a have "rejected (fst (send_attempt rt t message (envs 0)))"
        "rejected (fst (send_attempt rt t message (envs 1)))" by simp_all
      then obtain e0 tr0 e1 tr1 where r: "send_attempt rt t message (envs 0) = (Rejected e0, tr0)"
        "send_attempt rt t message (envs 1) = (Rejected e1, tr1)"
        by (metis rejectedE)
      from 3 ok r show ?thesis
        unfolding s by (simp add: send_loop.simps[of rt t message 0] send_loop.simps[of rt t message "Suc 0"]
            send_loop.simps[of rt t message "Suc (Suc 0)"] numeral_2_eq_2
            MAX_RETRIES_def RETRY_DELAY_MS_def)
    qed
  }
  {
    assume a: "(\<forall>i<3. rejected (fst (send_attempt rt t message (envs i)))) \<and>
          fst (send_attempt rt t message (envs 2)) = Rejected e"
    then have "rejected (fst (send_attempt rt t message (envs 0)))"
        "rejected (fst (send_attempt rt t message (envs 1)))" by simp_all
    then obtain e0 tr0 e1 tr1 where r: "send_attempt rt t message (envs 0) = (Rejected e0, tr0)"
        "send_attempt rt t message (envs 1) = (Rejected e1, tr1)"
      by (metis rejectedE)
    from a obtain tr2 where r2: "send_attempt rt t message (envs 2) = (Rejected e, tr2)"
      by (cases "send_attempt rt t message (envs 2)") auto
    have e: "as_Error e = e"
      using a by (auto dest: send_attempt_rejects_Error)
    have nr: "error_reports tr0 = []" "error_reports tr1 = []" "error_reports tr2 = []"
      using send_attempt_no_reports[of rt t message "envs 0"] send_attempt_no_reports[of rt t message "envs 1"]
        send_attempt_no_reports[of rt t message "envs 2"] r r2 by simp_all
    have l: "send_loop rt t message 0 envs =
       (case call_onerror t e of
          (Returns, tr') \<Rightarrow> (Rejected e, t, tr0 @ Delay RETRY_DELAY_MS # tr1 @ Delay RETRY_DELAY_MS # tr2 @ tr')
        | (Throws x, tr') \<Rightarrow> (Rejected x, t, tr0 @ Delay RETRY_DELAY_MS # tr1 @ Delay RETRY_DELAY_MS # tr2 @ tr'))"
      using r r2 e by (simp add: send_loop.simps[of rt t message 0] send_loop.simps[of rt t message "Suc 0"]
            send_loop.simps[of rt t message "Suc (Suc 0)"] MAX_RETRIES_def numeral_2_eq_2 split: prod.splits completion.splits)
    show "error_reports (snd (snd (send rt t message envs))) =
                  (case onerror t of None \<Rightarrow> [] | Some f \<Rightarrow> [e])"
      unfolding s l using nr
      by (auto simp: call_onerror_def error_reports_def map_filter_def split: option.splits completion.splits)
    show "fst (send rt t message envs) =
                  (case fst (call_onerror t e) of Returns \<Rightarrow> Rejected e | Throws x \<Rightarrow> Rejected x)"
      unfolding s l
      by (auto simp: call_onerror_def split: option.splits completion.splits)
  }
qed

theorem send_retries_witness:
  "send example_runtime connected_transport ping two_failed_writes =
     (Resolved (), connected_transport,
      [SocketSend 0 ping, Delay 1000, SocketSend 0 ping, Delay 1000, SocketSend 0 ping]) \<and>
   fst (send example_runtime connected_transport ping failed_writes) = Rejected (sendError broken_pipe) \<and>
   error_reports (snd (snd (send example_runtime connected_transport ping failed_writes))) =
     [sendError broken_pipe]"
proof -
  have c: "socket connected_transport \<noteq> None" "connected connected_transport"
    by (simp_all add: connected_transport_def)
  have a: "send_attempt example_runtime connected_transport ping (OPEN, Callback (Some broken_pipe)) =
      (Rejected (sendError broken_pipe), [SocketSend 0 ping])"
    "send_attempt example_runtime connected_transport ping (OPEN, Callback None) =
      (Resolved (), [SocketSend 0 ping])"
    by (simp_all add: send_attempt_def connected_transport_def example_runtime_def)
  have h1: "(2::nat) < 3 \<and>
      (\<forall>i<2. rejected (fst (send_attempt example_runtime connected_transport ping (two_failed_writes i)))) \<and>
      fst (send_attempt example_runtime connected_transport ping (two_failed_writes 2)) = Resolved ()"
    by (simp add: two_failed_writes_def a)
  have h2: "(\<forall>i<3. rejected (fst (send_attempt example_runtime connected_transport ping (failed_writes i)))) \<and>
      fst (send_attempt example_runtime connected_transport ping (failed_writes 2)) = Rejected (sendError broken_pipe)"
    by (simp add: failed_writes_def a)
  have cb: "onerror connected_transport = Some (\<lambda>e. Returns)"
    by (simp add: connected_transport_def example_transport_def)
  have u: "[0..<2] = [0, Suc 0]"
    by (simp add: upt_rec numeral_2_eq_2)
  from send_retries[OF c, of 2 example_runtime ping two_failed_writes] h1
  have "send example_runtime connected_transport ping two_failed_writes =
     (Resolved (), connected_transport,
      [SocketSend 0 ping, Delay 1000, SocketSend 0 ping, Delay 1000, SocketSend 0 ping])"
    by (simp add: u two_failed_writes_def a)
  moreover from send_retries[OF c, of _ example_runtime ping failed_writes "sendError broken_pipe"] h2
  have "fst (send example_runtime connected_transport ping failed_writes) = Rejected (sendError broken_pipe) \<and>
   error_reports (snd (snd (send example_runtime connected_transport ping failed_writes))) =
     [sendError broken_pipe]"
    by (simp add: cb call_onerror_def)
  ultimately show ?thesis by simp
qed

text \<open>
  The claim as stated has \<open>send()\<close> rethrow the error of the final attempt in every
  run. The \<open>catch\<close> block calls the error callback before \<open>throw error\<close> and outside
  any \<open>try\<close>: when the callback throws, \<open>send()\<close> is rejected with what the callback
  threw, and the error of the third attempt does not reach the caller.
\<close>

theorem send_callback_throws_counterexample:
  "fst (send_attempt example_runtime throwing_onerror ping (failed_writes 0)) = Rejected (sendError broken_pipe) \<and>
   fst (send_attempt example_runtime throwing_onerror ping (failed_writes 1)) = Rejected (sendError broken_pipe) \<and>
   fst (send_attempt example_runtime throwing_onerror ping (failed_writes 2)) = Rejected (sendError broken_pipe) \<and>
   fst (send example_runtime throwing_onerror ping failed_writes) = Rejected broken_pipe \<and>
   broken_pipe \<noteq> sendError broken_pipe"
  by (simp add: send_def send_loop.simps send_attempt_def call_onerror_def as_Error_def sendError_def
      rethrow_cause_def broken_pipe_def failed_writes_def throwing_onerror_def connected_transport_def
      example_transport_def example_runtime_def MAX_RETRIES_def)

subsection \<open>Closing and disconnecting\<close>

lemma call_onclose_cong:
  "onclose t' = onclose t \<Longrightarrow> call_onclose t' = call_onclose t"
  by (simp add: call_onclose_def)

lemma close_without_exception:
  assumes "socket t \<noteq> None \<and> rs = OPEN \<longrightarrow> closing = Returns"
    and "fst (call_onclose t) = Returns"
  shows "close t rs closing =
           (Resolved (),
            t\<lparr>connected := False, aborted := True, socket := None\<rparr>,
            Abort # (case socket t of None \<Rightarrow> [] | Some s \<Rightarrow> if rs = OPEN then [SocketClose s] else []) @
            snd (call_onclose t))"
proof -
  obtain tr where c: "call_onclose t = (Returns, tr)"
    using assms(2) by (cases "call_onclose t") auto
  have c1: "call_onclose (t\<lparr>connected := False, aborted := True\<rparr>) = (Returns, tr)"
    "call_onclose (t\<lparr>connected := False, aborted := True, socket := None\<rparr>) = (Returns, tr)"
    using c by (simp_all add: call_onclose_def)
  show ?thesis
  proof (cases "socket t")
    case None
    then have "t\<lparr>connected := False, aborted := True, socket := None\<rparr> = t\<lparr>connected := False, aborted := True\<rparr>"
      by simp
    with None c c1 show ?thesis
      by (simp add: close_def Let_def)
  next
    case (Some s)
    show ?thesis
    proof (cases "rs = OPEN")
      case True
      with Some assms(1) have "closing = Returns" by simp
      with Some True c c1 show ?thesis
        by (simp add: close_def Let_def)
    next
      case False
      with Some c c1 show ?thesis
        by (simp add: close_def Let_def)
    qed
  qed
qed

lemma close_calls_call_onclose:
  "close_calls (snd (call_onclose t)) = (if onclose t = None then 0 else 1)"
  by (simp add: call_onclose_def close_calls_def split: option.splits)

lemma close_calls_prefix:
  "close_calls (Abort # (case so of None \<Rightarrow> [] | Some s \<Rightarrow> if b then [SocketClose s] else []) @ tr) = close_calls tr"
  by (simp add: close_calls_def split: option.splits)

text \<open>
  C6, as the code has it. In every prior state, when neither \<open>socket.close()\<close> (called
  only on a stored socket that is open) nor the consumer's close callback throws,
  \<open>close()\<close> resolves and itself calls the close callback exactly once, when one is
  registered; a second \<open>close()\<close> does the same again, whatever the socket would do. The
  handler \<open>socket.onclose\<close> stays in place on the discarded socket: a close event that
  the socket emits afterwards calls the close callback once more.
\<close>

theorem close_resolves_and_notifies_once:
  assumes "socket t \<noteq> None \<and> rs = OPEN \<longrightarrow> closing = Returns"
    and "fst (call_onclose t) = Returns"
  shows "fst (close t rs closing) = Resolved () \<and>
         close_calls (snd (snd (close t rs closing))) = (if onclose t = None then 0 else 1) \<and>
         fst (close (fst (snd (close t rs closing))) rs' closing') = Resolved () \<and>
         close_calls (snd (snd (close (fst (snd (close t rs closing))) rs' closing'))) =
           (if onclose t = None then 0 else 1) \<and>
         close_calls (snd (snd (socket_onclose (fst (snd (close t rs closing)))))) =
           (if onclose t = None then 0 else 1)"
proof -
  let ?t' = "t\<lparr>connected := False, aborted := True, socket := None\<rparr>"
  note first = close_without_exception[OF assms]
  have h1: "socket ?t' \<noteq> None \<and> rs' = OPEN \<longrightarrow> closing' = Returns"
    by simp
  have h2: "fst (call_onclose ?t') = Returns"
    using assms(2) by (simp add: call_onclose_def)
  note second = close_without_exception[OF h1 h2]
  have k: "onclose ?t' = onclose t"
    by simp
  have later: "close_calls (snd (snd (socket_onclose ?t'))) = (if onclose t = None then 0 else 1)"
    by (simp add: socket_onclose_def call_onclose_def close_calls_def Let_def split: option.splits)
  show ?thesis
    unfolding first fst_conv snd_conv second close_calls_prefix close_calls_call_onclose k later
    by simp
qed

theorem close_resolves_and_notifies_once_witness:
  "fst (close connected_transport OPEN Returns) = Resolved () \<and>
   close_calls (snd (snd (close connected_transport OPEN Returns))) = 1 \<and>
   fst (close (fst (snd (close connected_transport OPEN Returns))) CLOSED Returns) = Resolved () \<and>
   close_calls (snd (snd (close (fst (snd (close connected_transport OPEN Returns))) CLOSED Returns))) = 1 \<and>
   close_calls (snd (snd (socket_onclose (fst (snd (close connected_transport OPEN Returns)))))) = 1"
proof -
  have h1: "socket connected_transport \<noteq> None \<and> OPEN = OPEN \<longrightarrow> Returns = Returns"
    by simp
  have h2: "fst (call_onclose connected_transport) = Returns"
    by (simp add: call_onclose_def connected_transport_def example_transport_def)
  have cb: "onclose connected_transport \<noteq> None"
    by (simp add: connected_transport_def example_transport_def)
  from close_resolves_and_notifies_once[OF h1 h2, of CLOSED Returns] cb show ?thesis
    by simp
qed

text \<open>
  The claim as stated has every exception swallowed, and \<open>close()\<close> has no \<open>try\<close>. An
  exception of \<open>socket.close()\<close> rejects the promise before the handle is discarded and
  before the close callback is reached, and an exception of the callback rejects it too.
\<close>

theorem close_rejects_counterexample:
  "close connected_transport OPEN (Throws teardown_failure) =
     (Rejected teardown_failure,
      connected_transport\<lparr>connected := False, aborted := True\<rparr>,
      [Abort, SocketClose 0]) \<and>
   fst (close throwing_onclose CLOSED Returns) = Rejected teardown_failure"
  by (simp add: close_def call_onclose_def connected_transport_def throwing_onclose_def
      example_transport_def Let_def)

subsection \<open>The stored socket handle\<close>

lemma close_discards_handle:
  assumes "socket t \<noteq> None \<and> rs = OPEN \<longrightarrow> closing = Returns"
  shows "socket (fst (snd (close t rs closing))) = None \<and> \<not> connected (fst (snd (close t rs closing)))"
proof (cases "socket t")
  case None
  then show ?thesis
    by (simp add: close_def Let_def call_onclose_def split: option.splits completion.splits)
next
  case (Some s)
  show ?thesis
  proof (cases "rs = OPEN")
    case True
    with Some assms have "closing = Returns" by simp
    with Some True show ?thesis
      by (simp add: close_def Let_def call_onclose_def split: option.splits completion.splits)
  next
    case False
    with Some show ?thesis
      by (simp add: close_def Let_def call_onclose_def split: option.splits completion.splits)
  qed
qed

lemma socket_onclose_state:
  "fst (snd (socket_onclose t)) = t\<lparr>connected := False\<rparr>"
  by (simp add: socket_onclose_def Let_def split: prod.splits)

text \<open>
  C8, as the code has it. \<open>close()\<close> discards the stored handle and clears the flag,
  provided \<open>socket.close()\<close> does not throw. An unsolicited disconnect runs
  \<open>socket.onclose\<close>, which clears the flag and keeps the handle; \<open>send()\<close> tests the
  flag as well as the handle, so it still fails with \<open>Not connected\<close> in that state.
\<close>

theorem handle_discarded_by_close_only:
  assumes "socket t \<noteq> None \<and> rs = OPEN \<longrightarrow> closing = Returns"
  shows "socket (fst (snd (close t rs closing))) = None \<and>
         \<not> connected (fst (snd (close t rs closing))) \<and>
         socket (fst (snd (socket_onclose t))) = socket t \<and>
         \<not> connected (fst (snd (socket_onclose t))) \<and>
         send rt (fst (snd (socket_onclose t))) message envs =
           (Rejected (Error ''MCP WebSocket Transport Error: Not connected'' None),
            fst (snd (socket_onclose t)), [])"
  using close_discards_handle[OF assms]
  by (simp add: socket_onclose_state send_def)

theorem handle_discarded_by_close_only_witness:
  "socket (fst (snd (close connected_transport OPEN Returns))) = None \<and>
   \<not> connected (fst (snd (close connected_transport OPEN Returns))) \<and>
   socket (fst (snd (socket_onclose connected_transport))) = Some 0 \<and>
   \<not> connected (fst (snd (socket_onclose connected_transport)))"
proof -
  have h: "socket connected_transport \<noteq> None \<and> OPEN = OPEN \<longrightarrow> Returns = Returns"
    by simp
  have s: "socket connected_transport = Some 0"
    by (simp add: connected_transport_def)
  from handle_discarded_by_close_only[OF h, where rt = example_runtime and message = ping and envs = failed_writes] s
  show ?thesis
    by simp
qed

text \<open>
  The claim as stated has no disconnected state with a stored handle. After the close event
  of the socket of a connected transport the flag is cleared and the handle is still there.
\<close>

theorem stale_handle_counterexample:
  "socket_onclose connected_transport =
     (Returns, connected_transport\<lparr>connected := False\<rparr>, [OnClose]) \<and>
   socket (connected_transport\<lparr>connected := False\<rparr>) = Some 0 \<and>
   connected (connected_transport\<lparr>connected := False\<rparr>) = False"
  by (simp add: socket_onclose_def call_onclose_def connected_transport_def example_transport_def Let_def)

subsection \<open>Receiving\<close>

lemma socket_onmessage_decode_failure:
  assumes "decode rt d = Inl e"
  shows "socket_onmessage rt t d =
           (fst (call_onerror t (parse_failure e)), t,
            (case onerror t of None \<Rightarrow> [] | Some f \<Rightarrow> [OnError (parse_failure e)]))"
  using assms
  by (simp add: socket_onmessage_def call_onerror_def parse_failure_def Let_def split: option.splits prod.splits)

lemma messages_delivered_append:
  "messages_delivered (xs @ ys) = messages_delivered xs @ messages_delivered ys"
  by (simp add: messages_delivered_def map_filter_def)

lemma messages_delivered_report:
  "messages_delivered (case cb of None \<Rightarrow> [] | Some f \<Rightarrow> [OnError e]) = []"
  by (simp add: messages_delivered_def map_filter_def split: option.splits)


lemma onmessage_delivers_decoding:
  assumes "decode rt d = Inr message"
  shows "socket_onmessage rt t d =
           (case call_onmessage t message of
              (Returns, tr) \<Rightarrow> (Returns, t, tr)
            | (Throws x, tr) \<Rightarrow> (fst (call_onerror t (parse_failure x)), t, tr @ snd (call_onerror t (parse_failure x))))"
  using assms
  by (simp add: socket_onmessage_def parse_failure_def Let_def split: prod.splits completion.splits)

lemma receive_in_arrival_order:
  assumes "onmessage t = Some f" and "\<forall>m. f m = Returns"
    and "\<forall>e. fst (call_onerror t e) = Returns"
  shows "messages_delivered (snd (receive rt t ds)) = List.map_filter (decodes rt) ds \<and>
         fst (receive rt t ds) = t"
proof (induction ds)
  case Nil
  show ?case by (simp add: messages_delivered_def map_filter_def)
next
  case (Cons d ds)
  show ?case
  proof (cases "decode rt d")
    case (Inl e)
    have h: "socket_onmessage rt t d =
        (Returns, t, (case onerror t of None \<Rightarrow> [] | Some f \<Rightarrow> [OnError (parse_failure e)]))"
      using socket_onmessage_decode_failure[OF Inl, of t] assms(3) by simp
    show ?thesis
      using Cons Inl
      by (auto simp: h decodes_def escaped_def messages_delivered_append messages_delivered_report map_filter_simps split: prod.splits)
  next
    case (Inr m)
    have h: "socket_onmessage rt t d = (Returns, t, [OnMessage m])"
      using Inr assms(1,2) by (simp add: socket_onmessage_def call_onmessage_def)
    have one: "messages_delivered [OnMessage m] = [m]"
      by (simp add: messages_delivered_def map_filter_def)
    have "messages_delivered ([OnMessage m] @ tr) = m # messages_delivered tr" for tr
      by (simp only: messages_delivered_append one) simp
    then show ?thesis
      using Cons Inr
      by (auto simp: h decodes_def escaped_def map_filter_simps split: prod.splits)
  qed
qed






subsection \<open>The address of the endpoint\<close>

text \<open>
  The constructor rewrites an address that starts with \<open>http\<close>, in any case, by
  replacing these four characters with \<open>ws\<close>; whatever follows (the rest of the scheme,
  host and port) is kept as it is. Any other address is passed to \<open>new URL\<close> unchanged.
\<close>

lemma replace_http_prefix:
  "starts_with_http s \<Longrightarrow> replace_http s = ''ws'' @ drop 4 s"
  by (simp add: replace_http_def)

lemma replace_http_examples:
  "replace_http ''http://localhost:8080'' = ''ws://localhost:8080''"
  "replace_http ''HTTPS://example.com/mcp'' = ''wsS://example.com/mcp''"
  "replace_http ''ws://localhost:8080'' = ''ws://localhost:8080''"
  by (simp_all add: replace_http_def)

lemma constructor_example:
  "constructor example_runtime ''http://localhost:8080'' (Some [(''Authorization'', ''Bearer your-token'')]) =
     Inr (example_transport\<lparr>onclose := None, onerror := None, onmessage := None\<rparr>)"
  by (simp add: constructor_def example_runtime_def replace_http_def example_transport_def)

text \<open>
  The transport passes the codec through: the frame \<open>send()\<close> writes is what
  \<open>JSON.stringify\<close> returns for the message (here with a first write that succeeds), and
  what the message callback receives is what the payload decodes to (see
  \<open>onmessage_delivers_decoding\<close>).
\<close>

lemma send_writes_encoding:
  assumes "socket t = Some s" and "connected t" and "JSON_stringify rt message = Inr data"
    and "envs 0 = (OPEN, Callback None)"
  shows "send rt t message envs = (Resolved (), t, [SocketSend s data])"
  using assms
  by (simp add: send_def send_loop.simps[of rt t message 0] send_attempt_def MAX_RETRIES_def)

end
